theory Spec2Isabelle
  imports Main "HOL-Library.AList"
begin

section \<open>Values, documents and the document store\<close>

text \<open>
  \<^verbatim>\<open>src/mongodb_helper.py\<close> is a wrapper around a document-store client: every method
  binds a database and a collection handle and forwards one request to the driver.
  The wrapper is embedded function by function; the driver and the server behind it
  are not part of the repository and are modelled as a state (\<open>world\<close>) with the
  requests the wrapper issues.

  A field value is a scalar: a Python integer or a string. A document is a Python
  dictionary: an association list in insertion order, written and read with
  \<^const>\<open>AList.update\<close> and \<^const>\<open>map_of\<close>. A collection is the list of its
  documents in natural (insertion) order, and is named by a namespace: the name of its
  database and its own name.
\<close>

datatype bson = BInt int | BStr string

type_synonym document = "(string \<times> bson) list"

type_synonym namespace = "string \<times> string"

datatype error =
    ValueError string
  | ConnectionError string
  | KeyError string
  | TypeError string
  | AttributeError string
  | InvalidOperation string
  | BulkWriteError string

text \<open>The request object the helper builds: \<^verbatim>\<open>UpdateOne(filter, {'$set': doc}, upsert)\<close>.\<close>

datatype update_one = UpdateOne (op_filter: document) (op_set: document) (op_upsert: bool)

text \<open>
  The world outside the helper object: the collections the server stores (a collection
  exists once it has been written to; a database exists while it has a collection), the
  URIs for which a client object has been constructed, the lines printed so far, and
  two things the server decides. One is how it answers a \<open>drop\<close> of a namespace that
  does not exist (old servers answer \<open>ok: 0\<close> with \<open>ns not found\<close>, which the driver
  lets through; newer ones answer \<open>ok: 1\<close>). The other is which write requests it
  declines, given the collection and its documents at that moment (a unique index, a
  validation rule, a \<open>$set\<close> that would change the immutable \<open>_id\<close>): the helper
  has no say in either.
\<close>

record world =
  colls :: "(namespace \<times> document list) list"
  clients :: "string list"
  stdout :: "string list"
  drop_absent_ok :: bool
  declines :: "namespace \<Rightarrow> document list \<Rightarrow> update_one \<Rightarrow> bool"

text \<open>The client object: what the wrapper reads from it is whether writes are acknowledged
  (the write concern, which comes with the connection URI).\<close>

record client =
  write_ack :: bool

text \<open>
  The helper object. \<open>priv_database\<close> and \<open>priv_collection\<close> are the attributes
  \<^verbatim>\<open>_database\<close> and \<^verbatim>\<open>_collection\<close>: a \<^verbatim>\<open>Database\<close> object is its name, a
  \<^verbatim>\<open>Collection\<close> object is the namespace it was created for (the database it was taken
  from and its own name).
\<close>

record helper =
  mongo_client :: client
  uri :: "string option"
  priv_database :: "string option"
  priv_collection :: "namespace option"

definition print :: "string \<Rightarrow> world \<Rightarrow> world" where
  "print line w = w\<lparr>stdout := stdout w @ [line]\<rparr>"

subsection \<open>Decimal rendering of counts\<close>




subsection \<open>The driver's requests\<close>

text \<open>Python's \<^verbatim>\<open>d.update(items)\<close>, also \<^verbatim>\<open>dict(items)\<close> from the empty dictionary: a
  later item overwrites the value of an earlier one and keeps its position.\<close>

definition dict_update :: "(string \<times> bson) list \<Rightarrow> document \<Rightarrow> document" where
  "dict_update items d = fold (\<lambda>(f, x). AList.update f x) items d"

definition find_docs :: "world \<Rightarrow> namespace \<Rightarrow> document list" where
  "find_docs w ns = (case map_of (colls w) ns of None \<Rightarrow> [] | Some ds \<Rightarrow> ds)"





text \<open>
  Modelled from the spec: the store's conditional write, which is the driver's
  \<^verbatim>\<open>UpdateOne(filter, {'$set': doc}, upsert=True)\<close> run by \<^verbatim>\<open>bulk_write\<close>; the driver
  is not code of the repository. Section 4.1: find a stored record with equal key
  value; if found, overwrite its fields with the batch record's fields; if absent,
  insert the batch record as a new stored record. Section 6: conditional bulk write,
  insert-if-absent. A filter document matches a stored document that carries each of
  its fields with the same value; \<open>$set\<close>, the operator the code passes, writes the
  named fields into the first matching document and leaves its other fields as they
  are (a replacement of the whole document would be another request, \<^verbatim>\<open>ReplaceOne\<close>); an upsert that matches
  nothing appends the filter's fields with the \<open>$set\<close> fields written over them. The
  requests of one bulk write run in order. The result counts the requests that
  matched, those whose document changed, and those that inserted. Section 4.1 names
  "the store rejects the batch" as an error of the operation: when the store does so is
  the world's \<open>declines\<close>. The identifier the server adds to an inserted document that
  has none is left out of the model: stored documents are described up to that field.
\<close>

record bulk_write_result =
  acknowledged :: bool
  matched_count :: nat
  modified_count :: nat
  upserted_count :: nat

definition matches :: "document \<Rightarrow> document \<Rightarrow> bool" where
  "matches flt d = list_all (\<lambda>(f, x). map_of d f = Some x) flt"

fun update_first :: "document \<Rightarrow> document \<Rightarrow> document list \<Rightarrow> document list option" where
  "update_first flt upd [] = None"
| "update_first flt upd (d # ds) =
     (if matches flt d then Some (dict_update upd d # ds)
      else map_option ((#) d) (update_first flt upd ds))"

definition exec_update_one ::
  "update_one \<Rightarrow> document list \<times> bulk_write_result \<Rightarrow> document list \<times> bulk_write_result" where
  "exec_update_one op st =
     (case st of (ds, r) \<Rightarrow>
        (case update_first (op_filter op) (op_set op) ds of
           Some ds' \<Rightarrow>
             (ds', r\<lparr>matched_count := matched_count r + 1,
                     modified_count := modified_count r + (if ds' = ds then 0 else 1)\<rparr>)
         | None \<Rightarrow>
             if op_upsert op
             then (ds @ [dict_update (op_set op) (op_filter op)],
                   r\<lparr>upserted_count := upserted_count r + 1\<rparr>)
             else (ds, r)))"



section \<open>The helper\<close>

subsection \<open>Construction\<close>

text \<open>
  \<^verbatim>\<open>__init__\<close> and \<^verbatim>\<open>_connect_to_mongodb\<close>. The driver's constructor \<^verbatim>\<open>MongoClient\<close> is a
  parameter: it answers with the text of the exception it raises or with the client.
\<close>

definition connect_to_mongodb ::
  "(string \<Rightarrow> string + client) \<Rightarrow> string option \<Rightarrow> world \<Rightarrow> (error + client) \<times> world" where
  "connect_to_mongodb MongoClient u w =
     (case u of
        None \<Rightarrow> (Inl (ValueError ''Please specify MongoDB instance URI''), w)
      | Some s \<Rightarrow>
          (case MongoClient s of
             Inl e \<Rightarrow> (Inl (ConnectionError (''Error connecting to MongoDB: '' @ e)), w)
           | Inr c \<Rightarrow> (Inr c, w\<lparr>clients := clients w @ [s]\<rparr>)))"

definition init ::
  "(string \<Rightarrow> string + client) \<Rightarrow> string option \<Rightarrow> world \<Rightarrow> (error + helper) \<times> world" where
  "init MongoClient u w =
     (case connect_to_mongodb MongoClient u w of
        (Inl e, w') \<Rightarrow> (Inl e, w')
      | (Inr c, w') \<Rightarrow>
          (Inr \<lparr>mongo_client = c, uri = u, priv_database = None, priv_collection = None\<rparr>, w'))"

subsection \<open>The database and collection properties\<close>







subsection \<open>Deleting databases and collections\<close>





subsection \<open>Upserting a data frame\<close>






section \<open>Notions used to state the properties\<close>

text \<open>
  The collection a method called with \<open>database_name\<close> and \<open>collection_name\<close> works
  on, read off the two setters: the collection already bound when it has the same
  name, the named one otherwise; and the helper after the two setter lines.
\<close>

definition bound_namespace :: "string \<Rightarrow> string \<Rightarrow> helper \<Rightarrow> namespace" where
  "bound_namespace database_name collection_name h =
     (case priv_collection h of
        None \<Rightarrow> (database_name, collection_name)
      | Some ns \<Rightarrow> if snd ns \<noteq> collection_name then (database_name, collection_name) else ns)"

definition bind_handles :: "string \<Rightarrow> string \<Rightarrow> helper \<Rightarrow> helper" where
  "bind_handles database_name collection_name h =
     h\<lparr>priv_database := Some database_name,
       priv_collection := Some (bound_namespace database_name collection_name h)\<rparr>"

text \<open>The documents of a collection after one request, without the counts.\<close>

definition apply_update :: "update_one \<Rightarrow> document list \<Rightarrow> document list" where
  "apply_update op ds =
     (case update_first (op_filter op) (op_set op) ds of
        Some ds' \<Rightarrow> ds'
      | None \<Rightarrow> if op_upsert op then ds @ [dict_update (op_set op) (op_filter op)] else ds)"

text \<open>A list of requests none of which is declined: documents and counts after it, from
  zero counts; and what it means that the server declines none, each request being
  judged on the documents the earlier ones left.\<close>

definition run_requests ::
  "bool \<Rightarrow> update_one list \<Rightarrow> document list \<Rightarrow> document list \<times> bulk_write_result" where
  "run_requests ack ops ds =
     fold exec_update_one ops
       (ds, \<lparr>acknowledged = ack, matched_count = 0, modified_count = 0, upserted_count = 0\<rparr>)"

fun accepts :: "(document list \<Rightarrow> update_one \<Rightarrow> bool) \<Rightarrow> update_one list \<Rightarrow> document list \<Rightarrow> bool" where
  "accepts dec [] ds = True"
| "accepts dec (op # ops) ds = (\<not> dec ds op \<and> accepts dec ops (apply_update op ds))"

definition store_accepts :: "world \<Rightarrow> namespace \<Rightarrow> update_one list \<Rightarrow> bool" where
  "store_accepts w ns ops = accepts (declines w ns) ops (find_docs w ns)"

text \<open>The request \<^verbatim>\<open>upsert_df\<close> builds for a record that carries the key.\<close>

definition request_for :: "string \<Rightarrow> document \<Rightarrow> update_one" where
  "request_for k doc = UpdateOne [(k, the (map_of doc k))] doc True"

text \<open>The documents of a collection after the requests built for the records of a batch.\<close>

definition upsert_records :: "string \<Rightarrow> document list \<Rightarrow> document list \<Rightarrow> document list" where
  "upsert_records k rs ds = fold apply_update (map (request_for k) rs) ds"


definition empty_world :: world where
  "empty_world =
     \<lparr>colls = [], clients = [''mongodb://localhost:27017/''], stdout = [],
      drop_absent_ok = False, declines = (\<lambda>ns ds op. False)\<rparr>"

section \<open>Basic facts\<close>

subsection \<open>Binding the handles\<close>







lemma mongo_client_bind_handles [simp]: "mongo_client (bind_handles db c h) = mongo_client h"
  by (simp add: bind_handles_def)


lemma find_docs_print [simp]: "find_docs (print line w) ns = find_docs w ns"
  by (simp add: find_docs_def print_def)

lemma colls_print [simp]: "colls (print line w) = colls w"
  by (simp add: print_def)

lemma stdout_print [simp]: "stdout (print line w) = stdout w @ [line]"
  by (simp add: print_def)

subsection \<open>Requests and documents\<close>










lemma store_accepts_print [simp]: "store_accepts (print line w) ns ops = store_accepts w ns ops"
  by (simp add: store_accepts_def print_def find_docs_def)




lemma acknowledged_exec [simp]:
  "acknowledged (snd (exec_update_one op st)) = acknowledged (snd st)"
  by (cases st) (simp add: exec_update_one_def split: option.splits)

lemma acknowledged_run [simp]: "acknowledged (snd (run_requests ack ops ds)) = ack"
proof -
  have "acknowledged (snd (fold exec_update_one ops st)) = acknowledged (snd st)" for st
    by (induction ops arbitrary: st) simp_all
  then show ?thesis by (simp add: run_requests_def)
qed




subsection \<open>Dictionaries\<close>

lemma dict_update_Nil [simp]: "dict_update [] d = d"
  by (simp add: dict_update_def)









subsection \<open>A batch of requests on a collection\<close>

lemma upsert_records_Nil [simp]: "upsert_records k [] ds = ds"
  by (simp add: upsert_records_def)













subsection \<open>The worked example\<close>








subsection \<open>The counts of a bulk write\<close>




subsection \<open>The key values of a collection\<close>









subsection \<open>The first stored document of a key\<close>







subsection \<open>The helper after a call\<close>










section \<open>Properties of the helper\<close>

subsection \<open>Errors at construction and before writing\<close>

text \<open>
  C7: constructing the helper without a connection URI raises the configuration error
  \<^verbatim>\<open>ValueError('Please specify MongoDB instance URI')\<close> during initialization, whatever
  the driver's constructor would do: no helper is returned, and the world is as before,
  so no client has been constructed.
\<close>

theorem init_without_uri:
  "init MongoClient None w = (Inl (ValueError ''Please specify MongoDB instance URI''), w)"
  by (simp add: init_def connect_to_mongodb_def)

theorem init_without_uri_witness:
  "init (\<lambda>s. Inr \<lparr>write_ack = True\<rparr>) None empty_world =
     (Inl (ValueError ''Please specify MongoDB instance URI''), empty_world) \<and>
   clients (snd (init (\<lambda>s. Inr \<lparr>write_ack = True\<rparr>) None empty_world)) = clients empty_world"
  using init_without_uri [of "\<lambda>s. Inr \<lparr>write_ack = True\<rparr>" empty_world] by simp





subsection \<open>Deleting what does not exist\<close>



subsection \<open>Upserting twice\<close>



subsection \<open>The example of the specification\<close>



subsection \<open>What the caller gets back\<close>




subsection \<open>One stored document per key\<close>




subsection \<open>What is stored after an upsert\<close>




subsection \<open>The collection handle across calls\<close>




end
